theory Spec2Isabelle
  imports Main "HOL-Library.Char_ord" "HOL-Library.List_Lexorder" "HOL-Library.Multiset"
    "HOL-Library.Sublist"
begin

section \<open>The renderer of the go-plotly generator\<close>

text \<open>
  The development follows the generator's renderer (package generator): the two escaping
  passes \<open>cleanName\<close> and \<open>cleanValue\<close>, the four \<open>Write...\<close> methods that build a
  type graph and hand it to the templates, and the four \<open>Create...\<close> methods that format
  the rendered text and persist it. Go strings are byte sequences, so a string is a
  \<^typ>\<open>string\<close> (a list of \<^typ>\<open>char\<close>, one per byte) and Go's string comparison is the
  lexicographic order on such lists.
\<close>

subsection \<open>Characters that cannot be written inside a literal\<close>

definition backslash :: char where
  "backslash = CHR 0x5C"

definition dquote :: char where
  "dquote = CHR 0x22"

definition newline :: char where
  "newline = CHR 0x0A"

definition tab :: char where
  "tab = CHR 0x09"

subsection \<open>strings.NewReplacer and strings.ReplaceAll\<close>

text \<open>
  \<open>strings.NewReplacer(oldnew...)\<close> takes its arguments as old, new, old, new, ...;
  \<open>oldnew\<close> pairs them up. (An odd number of arguments panics in Go; the only caller
  passes the 30 entries of \<open>symbolMap\<close>.)
\<close>

fun oldnew :: "string list \<Rightarrow> (string \<times> string) list" where
  "oldnew (old # new # rest) = (old, new) # oldnew rest"
| "oldnew rest = []"

text \<open>
  The pair that applies at the head of \<open>s\<close>: comparisons are done in argument order, so
  the first pair whose old string is a prefix of \<open>s\<close> wins. The empty old string, which Go
  matches at every position, occurs in no table of this program and is skipped here.
\<close>

fun lookup_old :: "(string \<times> string) list \<Rightarrow> string \<Rightarrow> (string \<times> string) option" where
  "lookup_old [] s = None"
| "lookup_old ((old, new) # ps) s =
     (if old \<noteq> [] \<and> take (length old) s = old then Some (old, new) else lookup_old ps s)"

text \<open>
  \<open>Replacer.Replace\<close>: replacements are performed in the order they appear in the target
  string, without overlapping matches. Where a pair applies, its new string is emitted
  and scanning resumes behind the old string; otherwise one byte is copied.
\<close>

function Replace :: "(string \<times> string) list \<Rightarrow> string \<Rightarrow> string" where
  "Replace ps [] = []"
| "Replace ps (c # cs) =
     (case lookup_old ps (c # cs) of
        Some (old, new) \<Rightarrow> new @ Replace ps (drop (length old) (c # cs))
      | None \<Rightarrow> c # Replace ps cs)"
  by pat_completeness auto
termination
proof (relation "measure (\<lambda>(ps, s). length s)")
  show "wf (measure (\<lambda>(ps, s). length s))" by simp
next
  fix ps :: "(string \<times> string) list" and c :: char and cs :: string and x2 x y
  assume found: "lookup_old ps (c # cs) = Some x2" and pair: "(x, y) = x2"
  have "old \<noteq> []" if "lookup_old qs s = Some (old, new)" for qs s old new
    using that by (induction qs) (auto split: if_splits)
  from this [of ps "c # cs" x y] found pair have "x \<noteq> []" by simp
  then show "((ps, drop (length x) (c # cs)), (ps, c # cs)) \<in> measure (\<lambda>(ps, s). length s)"
    by (cases x) simp_all
next
  fix ps :: "(string \<times> string) list" and c :: char and cs :: string
  show "((ps, cs), (ps, c # cs)) \<in> measure (\<lambda>(ps, s). length s)" by simp
qed

text \<open>
  \<open>strings.ReplaceAll(s, old, new)\<close> replaces all non-overlapping instances of \<open>old\<close>,
  left to right; for a non-empty \<open>old\<close> that is the one-pair replacer.
\<close>

definition ReplaceAll :: "string \<Rightarrow> string \<Rightarrow> string \<Rightarrow> string" where
  "ReplaceAll s old new = Replace [(old, new)] s"

subsection \<open>Namer: symbolMap, cleanName and cleanValue\<close>

text \<open>symbolMap translates a symbol into valid go identifier.\<close>

definition symbolMap :: "string list" where
  "symbolMap =
    [''='', ''Eq'',
     ''>'', ''Gt'',
     ''-'', ''Hyphen'',
     ''<'', ''Lt'',
     ''|'', ''Or'',
     ''/'', ''Slash'',
     [backslash], ''Doublebackslash'',
     ''^'', ''Cape'',
     ''('', ''Lpar'',
     '')'', ''Rpar'',
     ''['', ''Lbracket'',
     '']'', ''Rbracket'',
     ''+'', ''Plus'',
     ''?'', ''Question'',
     ''$'', ''Dollar'']"

definition cleanName :: "string \<Rightarrow> string" where
  "cleanName name = Replace (oldnew symbolMap) name"

definition cleanValue :: "string \<Rightarrow> string" where
  "cleanValue v = ReplaceAll v [backslash] [backslash, backslash]"

text \<open>
  The specification's reading of identifier synthesis, to compare \<open>cleanName\<close> with: every
  byte is looked up once in the table and either replaced by its word or kept.
\<close>

definition rawSymbols :: "char list" where
  "rawSymbols = map hd (map fst (oldnew symbolMap))"

definition symbolWord :: "char \<Rightarrow> string" where
  "symbolWord c = (case map_of (oldnew symbolMap) [c] of Some w \<Rightarrow> w | None \<Rightarrow> [c])"

text \<open>
  The specification's reading of decoding an escaped literal: every doubled backslash
  collapses to one, scanning left to right.
\<close>

fun unescape :: "string \<Rightarrow> string" where
  "unescape (a # b # cs) =
     (if a = backslash \<and> b = backslash then backslash # unescape cs else a # unescape (b # cs))"
| "unescape cs = cs"

subsection \<open>The type graph\<close>

text \<open>
  The descriptors are declared in another file of the package; the renderer's struct
  literals and field accesses show the fields used here. \<open>structName\<close>,
  \<open>structDescription\<close> and \<open>enumName\<close> are the \<open>Name\<close> and \<open>Description\<close> of an
  \<open>sstruct\<close> and the \<open>Name\<close> of an \<open>enumFile\<close>. The element type of an enum's \<open>Values\<close>
  and the type \<open>flagList\<close> are not visible in the renderer, which only moves such values
  around: they are the type parameters \<open>'v\<close> and \<open>'fl\<close>.
\<close>

record structField =
  Name :: string
  JSONName :: string
  Type :: string
  Description :: "string list"

record sstruct =
  structName :: string
  structDescription :: string
  Fields :: "structField list"

record 'v enumFile =
  enumName :: string
  Values :: "'v list"

record ('v, 'fl) typeFile =
  MainType :: sstruct
  Objects :: "sstruct list"
  Enums :: "'v enumFile list"
  FlagLists :: "'fl list"

subsection \<open>The schema\<close>

text \<open>
  Of the schema the renderer reads \<open>Traces\<close> (a Go map from trace name to trace), and the
  attribute sets \<open>trace.Attributes.Names\<close>, \<open>trace.LayoutAttributes.Names\<close>,
  \<open>Schema.Layout.LayoutAttributes.Names\<close> and \<open>Schema.Config.Names\<close>, which it only passes
  on to \<open>parseAttributes\<close>: their type is the parameter \<open>'a\<close>.
\<close>

record 'a Trace =
  Trace_Type :: string
  Meta_Description :: string
  Attributes_Names :: 'a
  LayoutAttributes_Names :: 'a

record 'a Schema =
  Traces :: "string \<rightharpoonup> 'a Trace"
  Layout_LayoutAttributes_Names :: 'a
  Config_Names :: 'a

text \<open>
  Go iterates over a map in an order that is not specified and differs from run to run.
  A \<open>range\<close> over \<open>Traces\<close> is modelled by the list of keys in the order that run visits
  them: any list that holds every key once.
\<close>

definition iteration_order :: "'a Schema \<Rightarrow> string list \<Rightarrow> bool" where
  "iteration_order schema ks = (distinct ks \<and> set ks = dom (Traces schema))"

definition range_Traces :: "'a Schema \<Rightarrow> string list \<Rightarrow> (string \<times> 'a Trace) list" where
  "range_Traces schema ks =
     List.map_filter (\<lambda>k. case Traces schema k of None \<Rightarrow> None | Some t \<Rightarrow> Some (k, t)) ks"

subsection \<open>Errors\<close>

text \<open>
  \<open>'e\<close> is the error type of the collaborators. \<open>Err\<close> is an error returned as it came;
  the other constructors are the \<open>fmt.Errorf\<close> wrappers of the renderer. \<open>MissingTrace\<close>
  stands for \<open>WriteTrace\<close> called with a name that is not a key of \<open>Traces\<close>: Go's map then
  yields the zero value of the element type, which is declared outside this file (a nil
  pointer, whose dereference panics, or an empty trace); the theorems below are about
  names of the schema. \<open>IndexOutOfRange\<close> is the run-time panic of a slice index.
\<close>

datatype 'e error =
    Err 'e
  | CannotParseAttributes 'e
  | CannotFormatSource 'e
  | CannotWriteSource 'e
  | MissingTrace
  | IndexOutOfRange

subsection \<open>Collaborators outside the renderer\<close>

text \<open>
  Modelled from the spec: \<open>parseAttributes\<close>, a method of \<open>typeFile\<close> declared in another
  file of the package. The spec (4.1) gives its interface: from a type name, a parent
  name and attribute names it returns the fields or fails, and it registers the nested
  objects, enums and flag lists it synthesises in the typeFile it is called on. It is a
  parameter here: given the typeFile as it stands, it returns an error or the fields
  with the new \<open>Objects\<close>, \<open>Enums\<close> and \<open>FlagLists\<close>.

  The other collaborators are library code or templates: \<open>xstrings.ToCamelCase\<close>,
  \<open>sort.Sort\<close> on the fields and on the enums, the four templates, \<open>format.Source\<close> and
  \<open>path.Join\<close>. A template writes to the writer and may fail half-way: it yields the bytes
  written and the error, if any.
\<close>

record ('a, 'v, 'fl, 'e) externals =
  parseAttributes :: "('v, 'fl) typeFile \<Rightarrow> string \<Rightarrow> string \<Rightarrow> 'a
      \<Rightarrow> 'e + (structField list \<times> sstruct list \<times> 'v enumFile list \<times> 'fl list)"
  ToCamelCase :: "string \<Rightarrow> string"
  sortFields :: "structField list \<Rightarrow> structField list"
  sortEnums :: "'v enumFile list \<Rightarrow> 'v enumFile list"
  trace_tmpl :: "sstruct \<Rightarrow> string \<times> 'e option"
  enum_tmpl :: "'v enumFile \<Rightarrow> string \<times> 'e option"
  flaglist_tmpl :: "'fl \<Rightarrow> string \<times> 'e option"
  unmarshal_tmpl :: "string list \<Rightarrow> string \<times> 'e option"
  format_Source :: "string \<Rightarrow> 'e + string"
  path_Join :: "string \<Rightarrow> string \<Rightarrow> string"

text \<open>
  Modelled from the spec: the orderings of the sortable slices, declared with the
  descriptors: "sort MainType fields lexicographically by identifier; sort Enums
  lexicographically by Name" (4.4). \<open>sort.Sort\<close> promises a permutation in ascending
  order and, by its documentation, no stability: fields or enums of the same name may
  come out in any order. \<open>sorts_by key srt\<close> is that contract.
\<close>

definition sorts_by :: "('x \<Rightarrow> string) \<Rightarrow> ('x list \<Rightarrow> 'x list) \<Rightarrow> bool" where
  "sorts_by key srt = (\<forall>xs. mset (srt xs) = mset xs \<and> sorted (map key (srt xs)))"

text \<open>One call of \<open>parseAttributes\<close> on \<open>traceFile\<close>, with its effect on the registries.\<close>

definition call_parseAttributes ::
  "('a, 'v, 'fl, 'e) externals \<Rightarrow> ('v, 'fl) typeFile \<Rightarrow> string \<Rightarrow> string \<Rightarrow> 'a
     \<Rightarrow> 'e + (structField list \<times> ('v, 'fl) typeFile)" where
  "call_parseAttributes ext traceFile typeName parentName names =
     (case parseAttributes ext traceFile typeName parentName names of
        Inl err \<Rightarrow> Inl err
      | Inr (flds, objects, enums, flagLists) \<Rightarrow>
          Inr (flds, traceFile\<lparr>Objects := objects, Enums := enums, FlagLists := flagLists\<rparr>))"

text \<open>\<open>traceFile.MainType.Fields = append(traceFile.MainType.Fields, fields...)\<close>\<close>

definition appendFields :: "('v, 'fl) typeFile \<Rightarrow> structField list \<Rightarrow> ('v, 'fl) typeFile" where
  "appendFields traceFile flds =
     traceFile\<lparr>MainType := (MainType traceFile)\<lparr>Fields := Fields (MainType traceFile) @ flds\<rparr>\<rparr>"

subsection \<open>WriteTrace and WriteConfig: building the type graph\<close>

definition doNotEdit :: string where
  "doNotEdit = ''// Code generated by go-plotly/generator. DO NOT EDIT.''"

text \<open>
  The struct literal that opens WriteTrace, WriteLayout and WriteConfig: a typeFile with
  the given main type and empty \<open>Objects\<close>, \<open>Enums\<close> and \<open>FlagLists\<close>.
\<close>

definition newTypeFile :: "string \<Rightarrow> string \<Rightarrow> structField list \<Rightarrow> ('v, 'fl) typeFile" where
  "newTypeFile name description flds =
     \<lparr>MainType = \<lparr>structName = name, structDescription = description, Fields = flds\<rparr>,
      Objects = [], Enums = [], FlagLists = []\<rparr>"

text \<open>The type graph \<open>WriteTrace\<close> has built when it starts to write.\<close>

definition traceTypeFile ::
  "('a, 'v, 'fl, 'e) externals \<Rightarrow> 'a Schema \<Rightarrow> string \<Rightarrow> 'e error + ('v, 'fl) typeFile" where
  "traceTypeFile ext schema traceName =
     (case Traces schema traceName of
        None \<Rightarrow> Inl MissingTrace
      | Some trace \<Rightarrow>
          (let traceFile =
             newTypeFile (ToCamelCase ext (Trace_Type trace)) (Meta_Description trace)
               [\<lparr>Name = ''Type'', JSONName = ''type'', Type = ''TraceType'',
                 Description = [''is the type of the plot'']\<rparr>]
           in case call_parseAttributes ext traceFile (structName (MainType traceFile))
                   (structName (MainType traceFile)) (Attributes_Names trace) of
                Inl err \<Rightarrow> Inl (CannotParseAttributes err)
              | Inr (flds, traceFile) \<Rightarrow> Inr (appendFields traceFile flds)))"

text \<open>The type graph \<open>WriteConfig\<close> has built when it starts to write.\<close>

definition configTypeFile ::
  "('a, 'v, 'fl, 'e) externals \<Rightarrow> 'a Schema \<Rightarrow> 'e error + ('v, 'fl) typeFile" where
  "configTypeFile ext schema =
     (let traceFile = newTypeFile ''Config'' ''Plot config options'' []
      in case call_parseAttributes ext traceFile (structName (MainType traceFile))
              (structName (MainType traceFile)) (Config_Names schema) of
           Inl err \<Rightarrow> Inl (CannotParseAttributes err)
         | Inr (flds, traceFile) \<Rightarrow> Inr (appendFields traceFile flds))"

subsection \<open>WriteLayout: collecting, sorting, merging and the axis fix-up\<close>

text \<open>
  The loop over \<open>Traces\<close>: every trace's layout attributes are parsed into the same
  typeFile and the fields appended, in the order of the iteration.
\<close>

fun layoutContributions ::
  "('a, 'v, 'fl, 'e) externals \<Rightarrow> ('v, 'fl) typeFile \<Rightarrow> (string \<times> 'a Trace) list
     \<Rightarrow> 'e error + ('v, 'fl) typeFile" where
  "layoutContributions ext traceFile [] = Inr traceFile"
| "layoutContributions ext traceFile ((name, trace) # rest) =
     (case call_parseAttributes ext traceFile (ToCamelCase ext name) ''Layout''
             (LayoutAttributes_Names trace) of
        Inl err \<Rightarrow> Inl (CannotParseAttributes err)
      | Inr (flds, traceFile) \<Rightarrow> layoutContributions ext (appendFields traceFile flds) rest)"

text \<open>
  Remove duplicate fields: \<open>fieldMap\<close> records the index of the first field of each name,
  \<open>uniqueFields\<close> collects those fields, and a field whose name is in the map is skipped.
\<close>

fun removeDuplicateFields_loop ::
  "(string \<rightharpoonup> nat) \<Rightarrow> structField list \<Rightarrow> nat \<Rightarrow> structField list \<Rightarrow> structField list" where
  "removeDuplicateFields_loop fieldMap uniqueFields i [] = uniqueFields"
| "removeDuplicateFields_loop fieldMap uniqueFields i (field # rest) =
     (case fieldMap (Name field) of
        None \<Rightarrow>
          removeDuplicateFields_loop (fieldMap(Name field \<mapsto> i)) (uniqueFields @ [field])
            (Suc i) rest
      | Some j \<Rightarrow> removeDuplicateFields_loop fieldMap uniqueFields (Suc i) rest)"

definition removeDuplicateFields :: "structField list \<Rightarrow> structField list" where
  "removeDuplicateFields flds = removeDuplicateFields_loop Map.empty [] 0 flds"

text \<open>
  Merge duplicate enums: the first enum of a name is appended to \<open>uniqueEnums\<close> and its
  index stored in \<open>enumMap\<close>; the values of a later enum of that name are appended to the
  values of the stored one. The index expression \<open>uniqueEnums[previous]\<close> panics in Go
  when out of range.
\<close>

fun mergeDuplicateEnums_loop ::
  "(string \<rightharpoonup> nat) \<Rightarrow> 'v enumFile list \<Rightarrow> 'v enumFile list \<Rightarrow> 'e error + 'v enumFile list" where
  "mergeDuplicateEnums_loop enumMap uniqueEnums [] = Inr uniqueEnums"
| "mergeDuplicateEnums_loop enumMap uniqueEnums (enum # rest) =
     (case enumMap (enumName enum) of
        None \<Rightarrow>
          (let uniqueEnums = uniqueEnums @ [enum]
           in mergeDuplicateEnums_loop (enumMap(enumName enum \<mapsto> length uniqueEnums - 1))
                uniqueEnums rest)
      | Some previous \<Rightarrow>
          (if previous < length uniqueEnums
           then mergeDuplicateEnums_loop enumMap
                  (uniqueEnums[previous := (uniqueEnums ! previous)
                     \<lparr>Values := Values (uniqueEnums ! previous) @ Values enum\<rparr>])
                  rest
           else Inl IndexOutOfRange))"

definition mergeDuplicateEnums :: "'v enumFile list \<Rightarrow> 'e error + 'v enumFile list" where
  "mergeDuplicateEnums enums = mergeDuplicateEnums_loop Map.empty [] enums"

text \<open>
  \<open>fmt.Sprintf\<close> with \<open>%d\<close> on a non-negative number, and \<open>strings.ToLower\<close> on ASCII
  text (the only text the renderer lowers is \<open>Xaxis2\<close> ... \<open>Yaxis6\<close>; letters outside
  ASCII are not modelled).
\<close>

function Itoa :: "nat \<Rightarrow> string" where
  "Itoa n = (if n < 10 then [char_of (48 + n)] else Itoa (n div 10) @ [char_of (48 + n mod 10)])"
  by pat_completeness auto
termination
  by (relation "measure (\<lambda>n. n)") auto

declare Itoa.simps [simp del]

definition ToLower :: "string \<Rightarrow> string" where
  "ToLower s =
     map (\<lambda>c. if CHR ''A'' \<le> c \<and> c \<le> CHR ''Z'' then char_of (of_char c + (32 :: nat)) else c) s"

text \<open>Add multiple x and y axis: the body of the two nested loops, and the loops.\<close>

definition axisField :: "string \<Rightarrow> nat \<Rightarrow> structField" where
  "axisField label i =
     \<lparr>Name = label @ ''Axis'' @ Itoa i,
      JSONName = ToLower (label @ ''axis'' @ Itoa i),
      Type = ''Layout'' @ label @ ''axis'',
      Description = [label @ '' Axis number '' @ Itoa i]\<rparr>"

definition addAxisFields :: "structField list \<Rightarrow> structField list" where
  "addAxisFields flds =
     foldl (\<lambda>flds label. foldl (\<lambda>flds i. flds @ [axisField label i]) flds [2..<7])
       flds [''X'', ''Y'']"

text \<open>
  \<open>WriteLayout\<close> from the two \<open>sort.Sort\<close> calls to the end of the axis loops, on the
  typeFile that the parsing left.
\<close>

definition assembleLayout ::
  "('a, 'v, 'fl, 'e) externals \<Rightarrow> ('v, 'fl) typeFile \<Rightarrow> 'e error + ('v, 'fl) typeFile" where
  "assembleLayout ext traceFile =
     (let sortedFields = sortFields ext (Fields (MainType traceFile));
          sortedEnums = sortEnums ext (Enums traceFile);
          uniqueFields = removeDuplicateFields sortedFields
      in case mergeDuplicateEnums sortedEnums of
           Inl err \<Rightarrow> Inl err
         | Inr uniqueEnums \<Rightarrow>
             Inr (traceFile
               \<lparr>MainType := (MainType traceFile)\<lparr>Fields := addAxisFields uniqueFields\<rparr>,
                Enums := uniqueEnums\<rparr>))"

text \<open>
  \<open>WriteLayout\<close> up to the two \<open>sort.Sort\<close> calls: the layout's own attributes, then
  every trace's layout attributes; \<open>ks\<close> is the order in which this run iterates over
  \<open>Traces\<close>.
\<close>

definition layoutCollected ::
  "('a, 'v, 'fl, 'e) externals \<Rightarrow> 'a Schema \<Rightarrow> string list \<Rightarrow> 'e error + ('v, 'fl) typeFile" where
  "layoutCollected ext schema ks =
     (let traceFile = newTypeFile ''Layout'' ''Plot layout options'' []
      in case call_parseAttributes ext traceFile (structName (MainType traceFile))
              (structName (MainType traceFile)) (Layout_LayoutAttributes_Names schema) of
           Inl err \<Rightarrow> Inl (CannotParseAttributes err)
         | Inr (flds, traceFile) \<Rightarrow>
             layoutContributions ext (appendFields traceFile flds) (range_Traces schema ks))"

text \<open>The type graph \<open>WriteLayout\<close> has built when it starts to write.\<close>

definition layoutTypeFile ::
  "('a, 'v, 'fl, 'e) externals \<Rightarrow> 'a Schema \<Rightarrow> string list \<Rightarrow> 'e error + ('v, 'fl) typeFile" where
  "layoutTypeFile ext schema ks =
     (case layoutCollected ext schema ks of
        Inl err \<Rightarrow> Inl err
      | Inr traceFile \<Rightarrow> assembleLayout ext traceFile)"

subsection \<open>Writing\<close>

text \<open>
  The writer \<open>w\<close> is the byte buffer that every caller passes: writing appends and never
  fails. A \<open>Write...\<close> method yields the bytes it has written and the error it returns.
  \<open>andThen\<close> is sequencing with the early \<open>return err\<close>; \<open>ExecuteTemplates\<close> is a loop
  that executes one template on every element of a slice.
\<close>

definition andThen :: "string \<times> 'e option \<Rightarrow> string \<times> 'e option \<Rightarrow> string \<times> 'e option" where
  "andThen first second =
     (case first of
        (out, Some err) \<Rightarrow> (out, Some err)
      | (out, None) \<Rightarrow> (out @ fst second, snd second))"

fun ExecuteTemplates :: "('x \<Rightarrow> string \<times> 'e option) \<Rightarrow> 'x list \<Rightarrow> string \<times> 'e option" where
  "ExecuteTemplates tmpl [] = ([], None)"
| "ExecuteTemplates tmpl (x # xs) = andThen (tmpl x) (ExecuteTemplates tmpl xs)"

text \<open>The part shared by WriteTrace, WriteLayout and WriteConfig: the templates.\<close>

definition renderTypeFile ::
  "('a, 'v, 'fl, 'e) externals \<Rightarrow> ('v, 'fl) typeFile \<Rightarrow> string \<times> 'e option" where
  "renderTypeFile ext traceFile =
     andThen (trace_tmpl ext (MainType traceFile))
       (andThen (ExecuteTemplates (trace_tmpl ext) (Objects traceFile))
          (andThen (ExecuteTemplates (enum_tmpl ext) (Enums traceFile))
             (ExecuteTemplates (flaglist_tmpl ext) (FlagLists traceFile))))"

definition written :: "string \<Rightarrow> string \<times> 'e option \<Rightarrow> string \<times> 'e error option" where
  "written header rendered = (header @ fst rendered, map_option Err (snd rendered))"

text \<open>The text that \<open>WriteTrace\<close> prints before the templates.\<close>

definition traceHeader :: "string \<Rightarrow> string \<Rightarrow> string" where
  "traceHeader mainTypeName traceName =
     ''package grob'' @ [newline, newline] @ doNotEdit @ [newline, newline]
     @ ''var TraceType'' @ mainTypeName @ '' TraceType = '' @ [dquote] @ traceName @ [dquote]
     @ [newline, newline]
     @ ''func (trace *'' @ mainTypeName @ '') GetType() TraceType {'' @ [newline, tab]
     @ ''return TraceType'' @ mainTypeName @ [newline] @ ''}'' @ [newline]"

definition WriteTrace ::
  "('a, 'v, 'fl, 'e) externals \<Rightarrow> 'a Schema \<Rightarrow> string \<Rightarrow> string \<times> 'e error option" where
  "WriteTrace ext schema traceName =
     (case traceTypeFile ext schema traceName of
        Inl err \<Rightarrow> ([], Some err)
      | Inr traceFile \<Rightarrow>
          written (traceHeader (structName (MainType traceFile)) traceName)
            (renderTypeFile ext traceFile))"

definition WriteLayout ::
  "('a, 'v, 'fl, 'e) externals \<Rightarrow> 'a Schema \<Rightarrow> string list \<Rightarrow> string \<times> 'e error option" where
  "WriteLayout ext schema ks =
     (case layoutTypeFile ext schema ks of
        Inl err \<Rightarrow> ([], Some err)
      | Inr traceFile \<Rightarrow>
          written (''package grob'' @ [newline, newline] @ doNotEdit)
            (renderTypeFile ext traceFile))"

definition WriteConfig ::
  "('a, 'v, 'fl, 'e) externals \<Rightarrow> 'a Schema \<Rightarrow> string \<times> 'e error option" where
  "WriteConfig ext schema =
     (case configTypeFile ext schema of
        Inl err \<Rightarrow> ([], Some err)
      | Inr traceFile \<Rightarrow>
          written (''package grob'' @ [newline, newline] @ doNotEdit)
            (renderTypeFile ext traceFile))"

text \<open>
  \<open>WriteUnmarshal\<close> collects the camel-cased trace names in the order of the iteration
  and sorts them with \<open>sort.Strings\<close>; equal strings are the same string, so the sorted
  slice is the one that \<^const>\<open>sort\<close> computes.
\<close>

definition WriteUnmarshal ::
  "('a, 'v, 'fl, 'e) externals \<Rightarrow> 'a Schema \<Rightarrow> string list \<Rightarrow> string \<times> 'e error option" where
  "WriteUnmarshal ext schema ks =
     written [] (unmarshal_tmpl ext
       (sort (map (\<lambda>(trace, t). ToCamelCase ext trace) (range_Traces schema ks))))"

subsection \<open>Creating the files\<close>

text \<open>
  The \<open>Creator\<close> interface and the \<open>io.WriteCloser\<close> it hands out, over a sink state
  \<open>'s\<close> with file handles \<open>'h\<close>: \<open>Create\<close> opens a destination or fails, \<open>file_Write\<close>
  writes bytes or fails, \<open>file_Close\<close> closes (its error is dropped by the \<open>defer\<close>).
  Every operation may change the sink, also when it fails.
\<close>

record ('e, 's, 'h) Creator =
  Create :: "'s \<Rightarrow> string \<Rightarrow> ('e + 'h) \<times> 's"
  file_Write :: "'s \<Rightarrow> 'h \<Rightarrow> string \<Rightarrow> 'e option \<times> 's"
  file_Close :: "'s \<Rightarrow> 'h \<Rightarrow> 's"

text \<open>
  The four \<open>Create...\<close> methods have the same body after their call of \<open>Write...\<close>, up to
  the file name: return the writer's error, format the source, create the file, write
  the formatted source, close.
\<close>

definition formatAndPersist ::
  "('a, 'v, 'fl, 'e) externals \<Rightarrow> ('e, 's, 'h) Creator \<Rightarrow> string \<Rightarrow> string \<times> 'e error option
     \<Rightarrow> 's \<Rightarrow> 'e error option \<times> 's" where
  "formatAndPersist ext fs file_name src sink =
     (case snd src of
        Some err \<Rightarrow> (Some err, sink)
      | None \<Rightarrow>
          (case format_Source ext (fst src) of
             Inl err \<Rightarrow> (Some (CannotFormatSource err), sink)
           | Inr fmtsrc \<Rightarrow>
               (case Create fs sink file_name of
                  (Inl err, sink) \<Rightarrow> (Some (Err err), sink)
                | (Inr file, sink) \<Rightarrow>
                    (case file_Write fs sink file fmtsrc of
                       (Some err, sink) \<Rightarrow> (Some (CannotWriteSource err), file_Close fs sink file)
                     | (None, sink) \<Rightarrow> (None, file_Close fs sink file)))))"

definition CreateTrace ::
  "('a, 'v, 'fl, 'e) externals \<Rightarrow> ('e, 's, 'h) Creator \<Rightarrow> 'a Schema \<Rightarrow> string \<Rightarrow> string
     \<Rightarrow> 's \<Rightarrow> 'e error option \<times> 's" where
  "CreateTrace ext fs schema dir name sink =
     formatAndPersist ext fs (path_Join ext dir (name @ ''_gen.go''))
       (WriteTrace ext schema name) sink"

definition CreateLayout ::
  "('a, 'v, 'fl, 'e) externals \<Rightarrow> ('e, 's, 'h) Creator \<Rightarrow> 'a Schema \<Rightarrow> string list \<Rightarrow> string
     \<Rightarrow> 's \<Rightarrow> 'e error option \<times> 's" where
  "CreateLayout ext fs schema ks dir sink =
     formatAndPersist ext fs (path_Join ext dir ''layout_gen.go'')
       (WriteLayout ext schema ks) sink"

definition CreateConfig ::
  "('a, 'v, 'fl, 'e) externals \<Rightarrow> ('e, 's, 'h) Creator \<Rightarrow> 'a Schema \<Rightarrow> string
     \<Rightarrow> 's \<Rightarrow> 'e error option \<times> 's" where
  "CreateConfig ext fs schema dir sink =
     formatAndPersist ext fs (path_Join ext dir ''config_gen.go'')
       (WriteConfig ext schema) sink"

definition CreateUnmarshal ::
  "('a, 'v, 'fl, 'e) externals \<Rightarrow> ('e, 's, 'h) Creator \<Rightarrow> 'a Schema \<Rightarrow> string list \<Rightarrow> string
     \<Rightarrow> 's \<Rightarrow> 'e error option \<times> 's" where
  "CreateUnmarshal ext fs schema ks dir sink =
     formatAndPersist ext fs (path_Join ext dir ''unmarshal_gen.go'')
       (WriteUnmarshal ext schema ks) sink"

subsection \<open>Stand-ins for running the renderer on concrete schemas\<close>

text \<open>
  Modelled from the spec: a stand-in for \<open>parseAttributes\<close> (declared in another file of
  the package), used only to evaluate the renderer on concrete inputs. An attribute set
  is given by what the walk of 4.1 derives from it: the fields it returns and the
  objects and enums it registers. An enum value is a pair of the raw value and the
  synthesised variant identifier.
\<close>

record given =
  givenFields :: "structField list"
  givenObjects :: "sstruct list"
  givenEnums :: "(string \<times> string) enumFile list"

definition parseGiven ::
  "((string \<times> string), string) typeFile \<Rightarrow> string \<Rightarrow> string \<Rightarrow> given
     \<Rightarrow> string + (structField list \<times> sstruct list \<times> (string \<times> string) enumFile list \<times> string list)" where
  "parseGiven traceFile typeName parentName names =
     Inr (givenFields names, Objects traceFile @ givenObjects names,
          Enums traceFile @ givenEnums names, FlagLists traceFile)"

text \<open>
  Stand-ins for the library code and the templates (all outside the repository's
  renderer): \<open>ToCamelCase\<close> on a single lower-case word upper-cases its first letter;
  \<open>sort.Sort\<close> on a short slice is an insertion sort, here \<^const>\<open>sort_key\<close>; the
  templates print names and types; \<open>format.Source\<close> accepts every text.
\<close>

definition capitalize :: "string \<Rightarrow> string" where
  "capitalize s =
     (case s of
        [] \<Rightarrow> []
      | c # cs \<Rightarrow>
          (if CHR ''a'' \<le> c \<and> c \<le> CHR ''z'' then char_of (of_char c - (32 :: nat)) else c) # cs)"

definition printStruct :: "sstruct \<Rightarrow> string \<times> string option" where
  "printStruct s =
     (''type '' @ structName s @ '' struct {''
        @ concat (map (\<lambda>f. '' '' @ Name f @ '' '' @ Type f @ '';'') (Fields s)) @ '' }'', None)"

definition printEnum :: "(string \<times> string) enumFile \<Rightarrow> string \<times> string option" where
  "printEnum e =
     (''type '' @ enumName e @ '' string; const (''
        @ concat (map (\<lambda>(raw, ident). '' '' @ ident @ '' = '' @ raw @ '';'') (Values e)) @ '' )'',
      None)"

definition standIn :: "(given, string \<times> string, string, string) externals" where
  "standIn =
     \<lparr>parseAttributes = parseGiven,
      ToCamelCase = capitalize,
      sortFields = sort_key Name,
      sortEnums = sort_key enumName,
      trace_tmpl = printStruct,
      enum_tmpl = printEnum,
      flaglist_tmpl = (\<lambda>f. (f, None)),
      unmarshal_tmpl = (\<lambda>ts. (concat ts, None)),
      format_Source = Inr,
      path_Join = (\<lambda>dir name. dir @ ''/'' @ name)\<rparr>"

text \<open>
  A sink that keeps the files as pairs of name and content, a file handle being the
  name; no operation fails.
\<close>

definition memorySink :: "(string, (string \<times> string) list, string) Creator" where
  "memorySink =
     \<lparr>Create = (\<lambda>files name. (Inr name, files @ [(name, [])])),
      file_Write = (\<lambda>files h bytes.
         (None, map (\<lambda>(name, content). if name = h then (name, content @ bytes) else (name, content))
                  files)),
      file_Close = (\<lambda>files h. files)\<rparr>"

text \<open>
  An ordering that \<open>sort.Sort\<close>'s contract allows as well: ascending by name, fields of
  the same name in the reverse of the order they came in.
\<close>

definition sortReversing :: "structField list \<Rightarrow> structField list" where
  "sortReversing flds = sort_key Name (rev flds)"

subsection \<open>What the two loops of WriteLayout compute\<close>

text \<open>
  The specification's reading of the two loops, to compare them with. \<open>keepFirst\<close> keeps
  of every key the first element and drops the later ones (\<open>seen\<close> holds the keys already
  taken). \<open>mergedValues enums n\<close> is the concatenation, in the order of the slice, of the
  value lists of all enums named \<open>n\<close>; \<open>mergedEnums\<close> keeps the first enum of each name
  and gives it those values.
\<close>

fun keepFirst :: "('x \<Rightarrow> string) \<Rightarrow> string set \<Rightarrow> 'x list \<Rightarrow> 'x list" where
  "keepFirst key seen [] = []"
| "keepFirst key seen (x # xs) =
     (if key x \<in> seen then keepFirst key seen xs
      else x # keepFirst key (insert (key x) seen) xs)"

definition mergedValues :: "'v enumFile list \<Rightarrow> string \<Rightarrow> 'v list" where
  "mergedValues enums n = concat (map Values (filter (\<lambda>e. enumName e = n) enums))"

definition mergedEnums :: "'v enumFile list \<Rightarrow> 'v enumFile list" where
  "mergedEnums enums =
     map (\<lambda>x. x\<lparr>Values := mergedValues enums (enumName x)\<rparr>) (keepFirst enumName {} enums)"

text \<open>
  The invariant of the enum loop: \<open>enumMap\<close> holds, for exactly the names in
  \<open>uniqueEnums\<close>, the index of the enum of that name, and no name is there twice.
  \<open>absorbed u rest\<close> is what the loop leaves when it starts in \<open>u\<close> and runs over \<open>rest\<close>.
\<close>

definition enumIndex :: "(string \<rightharpoonup> nat) \<Rightarrow> 'v enumFile list \<Rightarrow> bool" where
  "enumIndex enumMap uniqueEnums =
     (distinct (map enumName uniqueEnums)
      \<and> (\<forall>n i. enumMap n = Some i \<longleftrightarrow> i < length uniqueEnums \<and> enumName (uniqueEnums ! i) = n))"

definition absorbed :: "'v enumFile list \<Rightarrow> 'v enumFile list \<Rightarrow> 'v enumFile list" where
  "absorbed u rest =
     map (\<lambda>x. x\<lparr>Values := Values x @ mergedValues rest (enumName x)\<rparr>) u
     @ map (\<lambda>x. x\<lparr>Values := mergedValues rest (enumName x)\<rparr>)
         (keepFirst enumName (set (map enumName u)) rest)"

text \<open>
  The ten fields of the axis fix-up, written out, and the wire names of the axis
  family: the two base names and the ten of the fix-up.
\<close>

definition axisFields :: "structField list" where
  "axisFields =
    [\<lparr>Name = ''XAxis2'', JSONName = ''xaxis2'', Type = ''LayoutXaxis'',
      Description = [''X Axis number 2'']\<rparr>,
     \<lparr>Name = ''XAxis3'', JSONName = ''xaxis3'', Type = ''LayoutXaxis'',
      Description = [''X Axis number 3'']\<rparr>,
     \<lparr>Name = ''XAxis4'', JSONName = ''xaxis4'', Type = ''LayoutXaxis'',
      Description = [''X Axis number 4'']\<rparr>,
     \<lparr>Name = ''XAxis5'', JSONName = ''xaxis5'', Type = ''LayoutXaxis'',
      Description = [''X Axis number 5'']\<rparr>,
     \<lparr>Name = ''XAxis6'', JSONName = ''xaxis6'', Type = ''LayoutXaxis'',
      Description = [''X Axis number 6'']\<rparr>,
     \<lparr>Name = ''YAxis2'', JSONName = ''yaxis2'', Type = ''LayoutYaxis'',
      Description = [''Y Axis number 2'']\<rparr>,
     \<lparr>Name = ''YAxis3'', JSONName = ''yaxis3'', Type = ''LayoutYaxis'',
      Description = [''Y Axis number 3'']\<rparr>,
     \<lparr>Name = ''YAxis4'', JSONName = ''yaxis4'', Type = ''LayoutYaxis'',
      Description = [''Y Axis number 4'']\<rparr>,
     \<lparr>Name = ''YAxis5'', JSONName = ''yaxis5'', Type = ''LayoutYaxis'',
      Description = [''Y Axis number 5'']\<rparr>,
     \<lparr>Name = ''YAxis6'', JSONName = ''yaxis6'', Type = ''LayoutYaxis'',
      Description = [''Y Axis number 6'']\<rparr>]"

definition axisWireNames :: "string list" where
  "axisWireNames = ''xaxis'' # ''yaxis'' # map JSONName axisFields"

subsection \<open>Example inputs\<close>

text \<open>
  The spec's example of two contributions to the layout enum \<open>ShapeType\<close>, as the
  typeFile that the parsing leaves.
\<close>

definition shapesCollected :: "(string \<times> string, string) typeFile" where
  "shapesCollected =
     (newTypeFile ''Layout'' ''Plot layout options'' [])
       \<lparr>Enums :=
          [\<lparr>enumName = ''ShapeType'',
            Values = [(''circle'', ''ShapeTypeCircle''), (''square'', ''ShapeTypeSquare'')]\<rparr>,
           \<lparr>enumName = ''ShapeType'',
            Values = [(''square'', ''ShapeTypeSquare''), (''triangle'', ''ShapeTypeTriangle'')]\<rparr>]\<rparr>"

text \<open>
  A schema with two traces, \<open>bar\<close> and \<open>barpolar\<close>, that both contribute a layout
  attribute \<open>barmode\<close>, with different descriptions and value sets; the layout's own
  attributes are the two axes. The trace \<open>bar\<close> has the attributes of the spec's example:
  a data array \<open>x\<close> and an object \<open>marker\<close> with a colour.
\<close>

definition barmodeOfBar :: structField where
  "barmodeOfBar =
     \<lparr>Name = ''Barmode'', JSONName = ''barmode'', Type = ''BarBarmode'',
      Description = [''Determines how bars at the same location coordinate are displayed'']\<rparr>"

definition barmodeOfBarpolar :: structField where
  "barmodeOfBarpolar =
     \<lparr>Name = ''Barmode'', JSONName = ''barmode'', Type = ''BarpolarBarmode'',
      Description = [''Determines how bars at the same polar coordinate are displayed'']\<rparr>"

definition noAttributes :: given where
  "noAttributes = \<lparr>givenFields = [], givenObjects = [], givenEnums = []\<rparr>"

definition barSchema :: "given Schema" where
  "barSchema =
     \<lparr>Traces =
        [''bar'' \<mapsto>
           \<lparr>Trace_Type = ''bar'', Meta_Description = ''The data visualized as bars'',
            Attributes_Names =
              \<lparr>givenFields =
                 [\<lparr>Name = ''X'', JSONName = ''x'', Type = ''interface{}'', Description = []\<rparr>,
                  \<lparr>Name = ''Marker'', JSONName = ''marker'', Type = ''BarMarker'',
                   Description = []\<rparr>],
               givenObjects =
                 [\<lparr>structName = ''BarMarker'', structDescription = [],
                   Fields =
                     [\<lparr>Name = ''Color'', JSONName = ''color'', Type = ''Color'',
                       Description = []\<rparr>]\<rparr>],
               givenEnums = []\<rparr>,
            LayoutAttributes_Names =
              \<lparr>givenFields = [barmodeOfBar], givenObjects = [],
               givenEnums =
                 [\<lparr>enumName = ''LayoutBarmode'',
                   Values = [(''stack'', ''LayoutBarmodeStack''), (''group'', ''LayoutBarmodeGroup'')]\<rparr>]\<rparr>\<rparr>,
         ''barpolar'' \<mapsto>
           \<lparr>Trace_Type = ''barpolar'', Meta_Description = ''The data visualized as polar bars'',
            Attributes_Names = noAttributes,
            LayoutAttributes_Names =
              \<lparr>givenFields = [barmodeOfBarpolar], givenObjects = [],
               givenEnums =
                 [\<lparr>enumName = ''LayoutBarmode'',
                   Values = [(''stack'', ''LayoutBarmodeStack''), (''overlay'', ''LayoutBarmodeOverlay'')]\<rparr>]\<rparr>\<rparr>],
      Layout_LayoutAttributes_Names =
        \<lparr>givenFields =
           [\<lparr>Name = ''Xaxis'', JSONName = ''xaxis'', Type = ''LayoutXaxis'', Description = []\<rparr>,
            \<lparr>Name = ''Yaxis'', JSONName = ''yaxis'', Type = ''LayoutYaxis'', Description = []\<rparr>],
         givenObjects =
           [\<lparr>structName = ''LayoutXaxis'', structDescription = [], Fields = []\<rparr>,
            \<lparr>structName = ''LayoutYaxis'', structDescription = [], Fields = []\<rparr>],
         givenEnums = []\<rparr>,
      Config_Names = noAttributes\<rparr>"

text \<open>A schema without traces and without attributes.\<close>

definition emptySchema :: "given Schema" where
  "emptySchema =
     \<lparr>Traces = Map.empty, Layout_LayoutAttributes_Names = noAttributes,
      Config_Names = noAttributes\<rparr>"

text \<open>A \<open>format.Source\<close> that rejects every text.\<close>

definition rejecting :: "(given, string \<times> string, string, string) externals" where
  "rejecting = standIn\<lparr>format_Source := (\<lambda>src. Inl ''syntax error'')\<rparr>"

section \<open>Properties of the Namer\<close>

subsection \<open>Replacing with a table of single bytes\<close>

lemma lookup_old_bytes:
  "list_all (\<lambda>p. length (fst p) = 1) ps \<Longrightarrow>
   lookup_old ps (c # cs) = (case map_of ps [c] of Some w \<Rightarrow> Some ([c], w) | None \<Rightarrow> None)"
proof (induction ps)
  case Nil
  then show ?case by simp
next
  case (Cons p ps)
  obtain old new where p: "p = (old, new)" by (cases p)
  from Cons.prems p obtain a where old: "old = [a]"
    by (cases old) auto
  from Cons show ?case by (simp add: p old)
qed

lemma Replace_bytes:
  "list_all (\<lambda>p. length (fst p) = 1) ps \<Longrightarrow>
   Replace ps s = concat (map (\<lambda>c. case map_of ps [c] of Some w \<Rightarrow> w | None \<Rightarrow> [c]) s)"
  by (induction s) (simp_all add: lookup_old_bytes split: option.splits)

lemma oldnew_symbolMap:
  "oldnew symbolMap =
    [(''='', ''Eq''), (''>'', ''Gt''), (''-'', ''Hyphen''), (''<'', ''Lt''), (''|'', ''Or''),
     (''/'', ''Slash''), ([backslash], ''Doublebackslash''), (''^'', ''Cape''),
     (''('', ''Lpar''), ('')'', ''Rpar''), (''['', ''Lbracket''), ('']'', ''Rbracket''),
     (''+'', ''Plus''), (''?'', ''Question''), (''$'', ''Dollar'')]"
  by (simp add: symbolMap_def)

lemma symbolMap_bytes: "list_all (\<lambda>p. length (fst p) = 1) (oldnew symbolMap)"
  by (simp add: oldnew_symbolMap)

lemma cleanName_concat: "cleanName s = concat (map symbolWord s)"
  unfolding cleanName_def symbolWord_def
  by (rule Replace_bytes [OF symbolMap_bytes])

lemma rawSymbols_eq: "rawSymbols = ''=>-<|/'' @ [backslash] @ ''^()[]+?$''"
  by (simp add: rawSymbols_def oldnew_symbolMap)

lemma symbolWord_clean: "set (symbolWord c) \<inter> set rawSymbols = {}"
  by (simp add: symbolWord_def oldnew_symbolMap rawSymbols_eq backslash_def)

lemma cleanName_clean: "set (cleanName s) \<inter> set rawSymbols = {}"
  using symbolWord_clean by (auto simp: cleanName_concat)

lemma cleanValue_concat:
  "cleanValue s = concat (map (\<lambda>c. if c = backslash then [backslash, backslash] else [c]) s)"
proof -
  have "(\<lambda>c. case map_of [([backslash], [backslash, backslash])] [c] of Some w \<Rightarrow> w | None \<Rightarrow> [c])
      = (\<lambda>c. if c = backslash then [backslash, backslash] else [c])"
    by (rule ext) simp
  then show ?thesis
    unfolding cleanValue_def ReplaceAll_def by (subst Replace_bytes) simp_all
qed

lemma cleanValue_Nil: "cleanValue [] = []"
  by (simp add: cleanValue_concat)

lemma cleanValue_Cons:
  "cleanValue (c # s) = (if c = backslash then [backslash, backslash] else [c]) @ cleanValue s"
  by (simp add: cleanValue_concat)

lemma unescape_cleanValue: "unescape (cleanValue s) = s"
proof (induction s)
  case Nil
  then show ?case by (simp add: cleanValue_Nil)
next
  case (Cons c s)
  show ?case
  proof (cases "c = backslash")
    case True
    with Cons show ?thesis by (simp add: cleanValue_Cons)
  next
    case False
    with Cons show ?thesis
      by (cases "cleanValue s") (simp_all add: cleanValue_Cons)
  qed
qed

subsection \<open>Identifier synthesis\<close>

text \<open>
  C7. The table has 15 entries, its symbols are the single bytes
  \<open>= > - < | / \ ^ ( ) [ ] + ? $\<close>, pairwise distinct, and their words are pairwise
  distinct. For every input, \<open>cleanName\<close> is one pass from left to right in which every
  byte is replaced by its word, or kept when it is no symbol of the table, and the words
  are not scanned again; no symbol of the table occurs in the result. On
  \<open>bottom-left\<close> the result is \<open>bottomHyphenleft\<close>.
\<close>

theorem cleanName_single_pass:
  "cleanName s = concat (map symbolWord s)
   \<and> set (cleanName s) \<inter> set rawSymbols = {}
   \<and> rawSymbols = ''=>-<|/'' @ [backslash] @ ''^()[]+?$''
   \<and> length rawSymbols = 15 \<and> distinct rawSymbols
   \<and> map fst (oldnew symbolMap) = map (\<lambda>c. [c]) rawSymbols
   \<and> map symbolWord rawSymbols = map snd (oldnew symbolMap)
   \<and> distinct (map snd (oldnew symbolMap))
   \<and> cleanName ''bottom-left'' = ''bottomHyphenleft''"
proof -
  have table: "length rawSymbols = 15 \<and> distinct rawSymbols
      \<and> map fst (oldnew symbolMap) = map (\<lambda>c. [c]) rawSymbols
      \<and> map symbolWord rawSymbols = map snd (oldnew symbolMap)
      \<and> distinct (map snd (oldnew symbolMap))"
    by (simp add: rawSymbols_eq symbolWord_def oldnew_symbolMap backslash_def)
  have example: "cleanName ''bottom-left'' = ''bottomHyphenleft''"
    by (simp add: cleanName_concat symbolWord_def oldnew_symbolMap backslash_def)
  from table example show ?thesis
    using cleanName_concat [of s] cleanName_clean [of s] rawSymbols_eq by blast
qed

subsection \<open>String-literal escaping\<close>

text \<open>
  C8. For every input, \<open>cleanValue\<close> doubles each backslash and changes no other byte,
  and collapsing each doubled backslash of the result gives the input back; a value that
  is one backslash is embedded as two.
\<close>

theorem cleanValue_roundtrip:
  "cleanValue s = concat (map (\<lambda>c. if c = backslash then [backslash, backslash] else [c]) s)
   \<and> unescape (cleanValue s) = s
   \<and> cleanValue [backslash] = [backslash, backslash]"
  using cleanValue_concat [of s] unescape_cleanValue [of s] cleanValue_concat [of "[backslash]"]
  by simp

section \<open>Properties of WriteLayout's loops\<close>

subsection \<open>Keeping the first of each key\<close>

lemma keepFirst_keys: "set (map key (keepFirst key seen xs)) = set (map key xs) - seen"
  by (induction xs arbitrary: seen) auto

lemma keepFirst_key_notin: "x \<in> set (keepFirst key seen xs) \<Longrightarrow> key x \<notin> seen"
  using keepFirst_keys [of key seen xs] by auto

lemma keepFirst_distinct: "distinct (map key (keepFirst key seen xs))"
  by (induction xs arbitrary: seen) (auto dest: keepFirst_key_notin)

lemma keepFirst_subseq: "subseq (keepFirst key seen xs) xs"
  by (induction xs arbitrary: seen) auto

lemma keepFirst_find:
  "n \<notin> seen \<Longrightarrow> find (\<lambda>x. key x = n) (keepFirst key seen xs) = find (\<lambda>x. key x = n) xs"
  by (induction xs arbitrary: seen) auto

lemma keepFirst_subset: "set (keepFirst key seen xs) \<subseteq> set xs"
  by (induction xs arbitrary: seen) auto

lemma keepFirst_sorted: "sorted (map key xs) \<Longrightarrow> sorted (map key (keepFirst key seen xs))"
proof (induction xs arbitrary: seen)
  case Nil
  then show ?case by simp
next
  case (Cons a xs)
  have "key a \<le> key x" if "x \<in> set (keepFirst key s xs)" for x s
    using that Cons.prems keepFirst_subset [of key s xs] by auto
  with Cons show ?case by auto
qed

lemma removeDuplicateFields_loop_keepFirst:
  "removeDuplicateFields_loop fieldMap uniqueFields i flds
     = uniqueFields @ keepFirst Name (dom fieldMap) flds"
  by (induction flds arbitrary: fieldMap uniqueFields i) (auto split: option.splits)

lemma removeDuplicateFields_keepFirst: "removeDuplicateFields flds = keepFirst Name {} flds"
  by (simp add: removeDuplicateFields_def removeDuplicateFields_loop_keepFirst)

subsection \<open>The enum loop never indexes out of range and computes mergedEnums\<close>

lemma enumName_nth_mem: "i < length u \<Longrightarrow> enumName (u ! i) \<in> set (map enumName u)"
  by simp

lemma enumName_nth_neq:
  "i < length u \<Longrightarrow> n \<notin> set (map enumName u) \<Longrightarrow> enumName (u ! i) \<noteq> n"
  using enumName_nth_mem [of i u] by blast

lemma enumIndex_None:
  assumes "enumIndex m u"
  shows "m n = None \<longleftrightarrow> n \<notin> set (map enumName u)"
proof
  assume none: "m n = None"
  show "n \<notin> set (map enumName u)"
  proof
    assume "n \<in> set (map enumName u)"
    then obtain x where "x \<in> set u" "enumName x = n" by auto
    then obtain i where "i < length u" "enumName (u ! i) = n"
      by (auto simp: in_set_conv_nth)
    with assms have "m n = Some i" by (simp add: enumIndex_def)
    with none show False by simp
  qed
next
  assume notin: "n \<notin> set (map enumName u)"
  show "m n = None"
  proof (cases "m n")
    case None
    then show ?thesis .
  next
    case (Some i)
    with assms have "i < length u" "enumName (u ! i) = n" by (simp_all add: enumIndex_def)
    with notin enumName_nth_neq [of i u n] show ?thesis by simp
  qed
qed

lemma enumIndex_append:
  assumes "enumIndex m u" "m (enumName e) = None"
  shows "enumIndex (m(enumName e \<mapsto> length (u @ [e]) - 1)) (u @ [e])"
proof -
  from assms have notin: "enumName e \<notin> set (map enumName u)" by (simp add: enumIndex_None)
  have "distinct (map enumName (u @ [e]))"
    using assms(1) notin by (simp add: enumIndex_def)
  moreover have "(m(enumName e \<mapsto> length (u @ [e]) - 1)) n = Some i
      \<longleftrightarrow> i < length (u @ [e]) \<and> enumName ((u @ [e]) ! i) = n" for n i
  proof (cases "i < length u")
    case True
    then have "enumName (u ! i) \<noteq> enumName e" using notin by (rule enumName_nth_neq)
    with True assms(1) show ?thesis
      by (auto simp: enumIndex_def nth_append)
  next
    case False
    with assms(1) have "m n \<noteq> Some i" by (auto simp: enumIndex_def)
    with False show ?thesis by (auto simp: nth_append)
  qed
  ultimately show ?thesis by (simp add: enumIndex_def)
qed

lemma enumIndex_update:
  assumes "enumIndex m u" "p < length u"
  shows "enumIndex m (u[p := (u ! p)\<lparr>Values := vs\<rparr>])"
proof -
  have "map enumName (u[p := (u ! p)\<lparr>Values := vs\<rparr>]) = map enumName u"
    using assms(2) by (simp add: map_update list_update_same_conv)
  moreover have "enumName ((u[p := (u ! p)\<lparr>Values := vs\<rparr>]) ! i) = enumName (u ! i)" if "i < length u" for i
    using that by (cases "i = p") simp_all
  ultimately show ?thesis using assms(1) by (auto simp: enumIndex_def)
qed

lemma mergedValues_Cons:
  "mergedValues (e # rest) n = (if enumName e = n then Values e @ mergedValues rest n else mergedValues rest n)"
  by (simp add: mergedValues_def)

lemma absorbed_new:
  assumes "enumName e \<notin> set (map enumName u)"
  shows "absorbed (u @ [e]) rest = absorbed u (e # rest)"
proof -
  let ?K = "keepFirst enumName (insert (enumName e) (set (map enumName u))) rest"
  have old: "map (\<lambda>x. x\<lparr>Values := Values x @ mergedValues rest (enumName x)\<rparr>) u
      = map (\<lambda>x. x\<lparr>Values := Values x @ mergedValues (e # rest) (enumName x)\<rparr>) u"
    using assms by (intro map_cong) (auto simp: mergedValues_Cons)
  have new: "map (\<lambda>x. x\<lparr>Values := mergedValues rest (enumName x)\<rparr>) ?K
      = map (\<lambda>x. x\<lparr>Values := mergedValues (e # rest) (enumName x)\<rparr>) ?K"
  proof (rule map_cong [OF refl])
    fix x
    assume "x \<in> set ?K"
    from keepFirst_key_notin [OF this] have "enumName x \<noteq> enumName e" by auto
    then show "x\<lparr>Values := mergedValues rest (enumName x)\<rparr>
        = x\<lparr>Values := mergedValues (e # rest) (enumName x)\<rparr>"
      by (simp add: mergedValues_Cons)
  qed
  have "absorbed (u @ [e]) rest
      = map (\<lambda>x. x\<lparr>Values := Values x @ mergedValues rest (enumName x)\<rparr>) u
        @ e\<lparr>Values := Values e @ mergedValues rest (enumName e)\<rparr>
        # map (\<lambda>x. x\<lparr>Values := mergedValues rest (enumName x)\<rparr>) ?K"
    by (simp add: absorbed_def)
  also have "\<dots> = absorbed u (e # rest)"
    using assms unfolding old new by (simp add: absorbed_def mergedValues_Cons)
  finally show ?thesis .
qed

lemma absorbed_old:
  assumes "distinct (map enumName u)" "p < length u" "enumName (u ! p) = enumName e"
  shows "absorbed (u[p := (u ! p)\<lparr>Values := Values (u ! p) @ Values e\<rparr>]) rest = absorbed u (e # rest)"
proof -
  let ?u' = "u[p := (u ! p)\<lparr>Values := Values (u ! p) @ Values e\<rparr>]"
  have names: "map enumName ?u' = map enumName u"
    using assms(2) by (simp add: map_update list_update_same_conv)
  have inu: "enumName e \<in> set (map enumName u)"
    using assms(2,3) enumName_nth_mem [of p u] by metis
  have left: "map (\<lambda>x. x\<lparr>Values := Values x @ mergedValues rest (enumName x)\<rparr>) ?u'
      = map (\<lambda>x. x\<lparr>Values := Values x @ mergedValues (e # rest) (enumName x)\<rparr>) u"
  proof (rule nth_equalityI)
    show "length (map (\<lambda>x. x\<lparr>Values := Values x @ mergedValues rest (enumName x)\<rparr>) ?u')
        = length (map (\<lambda>x. x\<lparr>Values := Values x @ mergedValues (e # rest) (enumName x)\<rparr>) u)"
      by simp
  next
    fix i
    assume "i < length (map (\<lambda>x. x\<lparr>Values := Values x @ mergedValues rest (enumName x)\<rparr>) ?u')"
    then have i: "i < length u" by simp
    show "map (\<lambda>x. x\<lparr>Values := Values x @ mergedValues rest (enumName x)\<rparr>) ?u' ! i
        = map (\<lambda>x. x\<lparr>Values := Values x @ mergedValues (e # rest) (enumName x)\<rparr>) u ! i"
    proof (cases "i = p")
      case True
      with i assms(3) show ?thesis by (simp add: mergedValues_Cons)
    next
      case False
      from nth_eq_iff_index_eq [OF assms(1), of i p] i assms(2,3) False
      have "enumName (u ! i) \<noteq> enumName e" by simp
      with i False show ?thesis by (simp add: mergedValues_Cons)
    qed
  qed
  have right: "map (\<lambda>x. x\<lparr>Values := mergedValues rest (enumName x)\<rparr>)
        (keepFirst enumName (set (map enumName u)) rest)
      = map (\<lambda>x. x\<lparr>Values := mergedValues (e # rest) (enumName x)\<rparr>)
        (keepFirst enumName (set (map enumName u)) rest)"
  proof (rule map_cong [OF refl])
    fix x
    assume "x \<in> set (keepFirst enumName (set (map enumName u)) rest)"
    from keepFirst_key_notin [OF this] inu have "enumName x \<noteq> enumName e" by auto
    then show "x\<lparr>Values := mergedValues rest (enumName x)\<rparr>
        = x\<lparr>Values := mergedValues (e # rest) (enumName x)\<rparr>"
      by (simp add: mergedValues_Cons)
  qed
  show ?thesis
    unfolding absorbed_def names left right using inu by simp
qed

lemma mergeDuplicateEnums_loop_absorbed:
  "enumIndex m u \<Longrightarrow>
   mergeDuplicateEnums_loop m u rest = (Inr (absorbed u rest) :: 'e error + 'v enumFile list)"
proof (induction rest arbitrary: m u)
  case Nil
  then show ?case by (simp add: absorbed_def mergedValues_def)
next
  case (Cons e rest)
  show ?case
  proof (cases "m (enumName e)")
    case None
    with Cons.prems have notin: "enumName e \<notin> set (map enumName u)"
      by (simp add: enumIndex_None)
    have "(mergeDuplicateEnums_loop m u (e # rest) :: 'e error + 'v enumFile list)
        = mergeDuplicateEnums_loop (m(enumName e \<mapsto> length (u @ [e]) - 1)) (u @ [e]) rest"
      using None by (simp add: Let_def)
    also have "\<dots> = Inr (absorbed (u @ [e]) rest)"
      by (rule Cons.IH [OF enumIndex_append [OF Cons.prems None]])
    also have "absorbed (u @ [e]) rest = absorbed u (e # rest)"
      by (rule absorbed_new [OF notin])
    finally show ?thesis .
  next
    case (Some p)
    with Cons.prems have p: "p < length u" "enumName (u ! p) = enumName e"
      and d: "distinct (map enumName u)"
      by (auto simp: enumIndex_def)
    let ?u' = "u[p := (u ! p)\<lparr>Values := Values (u ! p) @ Values e\<rparr>]"
    have "(mergeDuplicateEnums_loop m u (e # rest) :: 'e error + 'v enumFile list)
        = mergeDuplicateEnums_loop m ?u' rest"
      using Some p(1) by simp
    also have "\<dots> = Inr (absorbed ?u' rest)"
      by (rule Cons.IH [OF enumIndex_update [OF Cons.prems p(1)]])
    also have "absorbed ?u' rest = absorbed u (e # rest)"
      by (rule absorbed_old [OF d p])
    finally show ?thesis .
  qed
qed

lemma mergeDuplicateEnums_mergedEnums: "mergeDuplicateEnums enums = Inr (mergedEnums enums)"
  using mergeDuplicateEnums_loop_absorbed [of Map.empty "[]" enums]
  by (simp add: mergeDuplicateEnums_def absorbed_def mergedEnums_def enumIndex_def)

subsection \<open>The axis loops, the sorts and the assembled layout\<close>

lemma Itoa_digits:
  "Itoa 2 = ''2''" "Itoa 3 = ''3''" "Itoa 4 = ''4''" "Itoa 5 = ''5''" "Itoa 6 = ''6''"
  by code_simp+

lemma upt_2_7: "[2..<7] = [2, 3, 4, 5, 6 :: nat]"
  by (simp add: upt_rec_numeral)

lemma ToLower_axis:
  "ToLower ''Xaxis2'' = ''xaxis2''" "ToLower ''Xaxis3'' = ''xaxis3''" "ToLower ''Xaxis4'' = ''xaxis4''"
  "ToLower ''Xaxis5'' = ''xaxis5''" "ToLower ''Xaxis6'' = ''xaxis6''"
  "ToLower ''Yaxis2'' = ''yaxis2''" "ToLower ''Yaxis3'' = ''yaxis3''" "ToLower ''Yaxis4'' = ''yaxis4''"
  "ToLower ''Yaxis5'' = ''yaxis5''" "ToLower ''Yaxis6'' = ''yaxis6''"
  by code_simp+

lemma addAxisFields_append: "addAxisFields flds = flds @ axisFields"
  by (simp add: addAxisFields_def upt_2_7 axisField_def Itoa_digits ToLower_axis axisFields_def)

lemma sorts_by_mset: "sorts_by key srt \<Longrightarrow> mset (srt xs) = mset xs"
  by (simp add: sorts_by_def)

lemma sorts_by_set: "sorts_by key srt \<Longrightarrow> set (srt xs) = set xs"
  using sorts_by_mset [of key srt xs] by (metis set_mset_mset)

lemma sorts_by_sorted: "sorts_by key srt \<Longrightarrow> sorted (map key (srt xs))"
  by (simp add: sorts_by_def)

lemma sorts_by_sort_key: "sorts_by key (sort_key key)"
  by (simp add: sorts_by_def)

lemma sorts_by_sortReversing: "sorts_by Name sortReversing"
  by (simp add: sorts_by_def sortReversing_def)

lemma assembleLayout_eq:
  "assembleLayout ext traceFile =
     Inr (traceFile
       \<lparr>MainType := (MainType traceFile)
          \<lparr>Fields := keepFirst Name {} (sortFields ext (Fields (MainType traceFile))) @ axisFields\<rparr>,
        Enums := mergedEnums (sortEnums ext (Enums traceFile))\<rparr>)"
  by (simp add: assembleLayout_def Let_def mergeDuplicateEnums_mergedEnums
      removeDuplicateFields_keepFirst addAxisFields_append)

lemma mergedEnums_names:
  "map enumName (mergedEnums enums) = map enumName (keepFirst enumName {} enums)"
  by (simp add: mergedEnums_def comp_def)

lemma mergedEnums_Values:
  "x \<in> set (mergedEnums enums) \<Longrightarrow> Values x = mergedValues enums (enumName x)"
  by (auto simp: mergedEnums_def)

lemma mset_mergedValues:
  "mset (mergedValues enums n)
     = (\<Sum>e \<in># filter_mset (\<lambda>e. enumName e = n) (mset enums). mset (Values e))"
  unfolding mergedValues_def
  by (induction enums) simp_all

lemma set_mergedValues:
  "set (mergedValues enums n) = (\<Union>e \<in> {e \<in> set enums. enumName e = n}. set (Values e))"
  unfolding mergedValues_def by auto

lemma length_mergedValues:
  "length (mergedValues enums n) = sum_list (map (\<lambda>e. length (Values e)) (filter (\<lambda>e. enumName e = n) enums))"
  unfolding mergedValues_def by (simp add: length_concat comp_def)

end
